theory Spec2Isabelle
  imports Complex_Main "HOL-Library.Char_ord" "HOL-Library.List_Lexorder" "HOL-Library.Sublist"
begin

section \<open>JavaScript values used by the ledger\<close>

text \<open>
  The data layer of \<^verbatim>\<open>src/client/src/App.jsx\<close> is embedded function by function: the
  handlers of the component \<^verbatim>\<open>App\<close> become functions on a record of its state, the
  identifiers and time stamps they draw become arguments, and the flags that only open or
  close a dialog are left out.

  Numbers are JavaScript Numbers: a finite value is represented by the rational it denotes,
  next to \<open>NaN\<close> and the two infinities. Rounding to binary64, overflow of finite
  arithmetic and the sign of zero are not represented. A string is a list of 8-bit code
  units, read as ISO-8859-1.
\<close>

datatype jsnum = NaN | NegInfinity | Finite rat | Infinity

text \<open>The primitive values that the fields \<open>quantity\<close> and \<open>price\<close> may hold.\<close>

datatype jsval = Undefined | Null | Bool bool | Num jsnum | Str string

subsection \<open>Number arithmetic and comparison\<close>

definition num_neg :: "jsnum \<Rightarrow> jsnum" where
  "num_neg a = (case a of NaN \<Rightarrow> NaN | NegInfinity \<Rightarrow> Infinity
                | Finite r \<Rightarrow> Finite (- r) | Infinity \<Rightarrow> NegInfinity)"

fun num_add :: "jsnum \<Rightarrow> jsnum \<Rightarrow> jsnum" where
  "num_add NaN _ = NaN"
| "num_add _ NaN = NaN"
| "num_add (Finite a) (Finite b) = Finite (a + b)"
| "num_add Infinity NegInfinity = NaN"
| "num_add NegInfinity Infinity = NaN"
| "num_add Infinity _ = Infinity"
| "num_add _ Infinity = Infinity"
| "num_add NegInfinity _ = NegInfinity"
| "num_add _ NegInfinity = NegInfinity"

definition num_sub :: "jsnum \<Rightarrow> jsnum \<Rightarrow> jsnum" where
  "num_sub a b = num_add a (num_neg b)"

text \<open>The sign of a number that is not \<open>NaN\<close>: -1, 0 or 1.\<close>

definition num_sgn :: "jsnum \<Rightarrow> int" where
  "num_sgn a = (case a of NaN \<Rightarrow> 0 | NegInfinity \<Rightarrow> - 1
                | Finite r \<Rightarrow> (if r < 0 then - 1 else if r = 0 then 0 else 1)
                | Infinity \<Rightarrow> 1)"

fun num_mul :: "jsnum \<Rightarrow> jsnum \<Rightarrow> jsnum" where
  "num_mul NaN _ = NaN"
| "num_mul _ NaN = NaN"
| "num_mul (Finite a) (Finite b) = Finite (a * b)"
| "num_mul a b =
     (if num_sgn a * num_sgn b = 0 then NaN
      else if num_sgn a * num_sgn b < 0 then NegInfinity else Infinity)"

text \<open>\<open>a < b\<close> on Numbers: false as soon as one side is \<open>NaN\<close>.\<close>

fun num_lt :: "jsnum \<Rightarrow> jsnum \<Rightarrow> bool" where
  "num_lt NaN _ = False"
| "num_lt _ NaN = False"
| "num_lt (Finite a) (Finite b) = (a < b)"
| "num_lt NegInfinity NegInfinity = False"
| "num_lt NegInfinity _ = True"
| "num_lt _ NegInfinity = False"
| "num_lt Infinity _ = False"
| "num_lt _ Infinity = True"

subsection \<open>Strings\<close>

text \<open>\<open>String.prototype.toLowerCase\<close> on ISO-8859-1 code units.\<close>

definition lowerChar :: "char \<Rightarrow> char" where
  "lowerChar c =
     (let n = (of_char c :: nat)
      in if (65 \<le> n \<and> n \<le> 90) \<or> (192 \<le> n \<and> n \<le> 222 \<and> n \<noteq> 215)
         then char_of (n + 32) else c)"

definition toLowerCase :: "string \<Rightarrow> string" where
  "toLowerCase s = map lowerChar s"

text \<open>White space and line terminators among the 8-bit code units.\<close>

definition isWhiteSpace :: "char \<Rightarrow> bool" where
  "isWhiteSpace c = ((of_char c :: nat) \<in> {9, 10, 11, 12, 13, 32, 160})"

definition trim :: "string \<Rightarrow> string" where
  "trim s = rev (dropWhile isWhiteSpace (rev (dropWhile isWhiteSpace s)))"

text \<open>\<open>s.includes(t)\<close>: \<open>t\<close> occurs in \<open>s\<close> as a contiguous substring.\<close>

fun String_includes :: "string \<Rightarrow> string \<Rightarrow> bool" where
  "String_includes [] t = (t = [])"
| "String_includes (c # cs) t = (prefix t (c # cs) \<or> String_includes cs t)"

text \<open>\<open>s.split(sep)\<close> for a separator of one code unit.\<close>

fun String_split :: "char \<Rightarrow> string \<Rightarrow> string list" where
  "String_split sep [] = [[]]"
| "String_split sep (c # cs) =
     (if c = sep then [] # String_split sep cs
      else (case String_split sep cs of
              [] \<Rightarrow> [[c]]
            | p # ps \<Rightarrow> (c # p) # ps))"

text \<open>The decimal digits of an integer, as \<open>String(n)\<close> prints them.\<close>

fun digits_of_nat :: "nat \<Rightarrow> string" where
  "digits_of_nat n =
     (if n < 10 then [char_of (48 + n)]
      else digits_of_nat (n div 10) @ [char_of (48 + n mod 10)])"

definition String_of_int :: "int \<Rightarrow> string" where
  "String_of_int i = (if i < 0 then CHR ''-'' # digits_of_nat (nat (- i)) else digits_of_nat (nat i))"

subsection \<open>String to Number\<close>

definition digit_value :: "char \<Rightarrow> nat option" where
  "digit_value c =
     (let n = (of_char c :: nat)
      in if 48 \<le> n \<and> n \<le> 57 then Some (n - 48)
         else if 97 \<le> n \<and> n \<le> 102 then Some (n - 87)
         else if 65 \<le> n \<and> n \<le> 70 then Some (n - 55)
         else None)"

text \<open>The value of a possibly empty run of digits in base \<open>b\<close>; \<open>None\<close> at a foreign character.\<close>

fun digits_value :: "nat \<Rightarrow> nat \<Rightarrow> string \<Rightarrow> nat option" where
  "digits_value b acc [] = Some acc"
| "digits_value b acc (c # cs) =
     (case digit_value c of
        None \<Rightarrow> None
      | Some d \<Rightarrow> if d < b then digits_value b (acc * b + d) cs else None)"

definition nonempty_digits :: "nat \<Rightarrow> string \<Rightarrow> nat option" where
  "nonempty_digits b s = (if s = [] then None else digits_value b 0 s)"

text \<open>The exponent part: empty, or \<open>e\<close>/\<open>E\<close>, an optional sign and at least one digit.\<close>

definition exponent_value :: "string \<Rightarrow> int option" where
  "exponent_value s =
     (case s of
        [] \<Rightarrow> Some 0
      | _ # r \<Rightarrow>
          (case r of
             [] \<Rightarrow> None
           | c # r' \<Rightarrow>
               if c = CHR ''+'' then map_option int (nonempty_digits 10 r')
               else if c = CHR ''-'' then map_option (\<lambda>n. - int n) (nonempty_digits 10 r')
               else map_option int (nonempty_digits 10 r)))"

definition scale10 :: "rat \<Rightarrow> int \<Rightarrow> rat" where
  "scale10 m e = (if 0 \<le> e then m * 10 ^ nat e else m / 10 ^ nat (- e))"

text \<open>An unsigned decimal literal: \<open>Infinity\<close>, or digits with an optional fraction and exponent.\<close>

definition unsigned_decimal :: "string \<Rightarrow> jsnum" where
  "unsigned_decimal s =
     (if s = ''Infinity'' then Infinity
      else
        let not_e = (\<lambda>c. c \<noteq> CHR ''e'' \<and> c \<noteq> CHR ''E'');
            mant = takeWhile not_e s;
            ex = dropWhile not_e s;
            ip = takeWhile (\<lambda>c. c \<noteq> CHR ''.'') mant;
            fp = (case dropWhile (\<lambda>c. c \<noteq> CHR ''.'') mant of [] \<Rightarrow> [] | _ # r \<Rightarrow> r)
        in if ip = [] \<and> fp = [] then NaN
           else (case (digits_value 10 0 ip, digits_value 10 0 fp, exponent_value ex) of
                   (Some i, Some f, Some e) \<Rightarrow>
                     Finite (scale10 (of_nat i + of_nat f / 10 ^ length fp) e)
                 | _ \<Rightarrow> NaN))"

definition radix_literal :: "string \<Rightarrow> nat option" where
  "radix_literal s =
     (case s of
        c0 # c1 # r \<Rightarrow>
          if c0 \<noteq> CHR ''0'' then None
          else if c1 = CHR ''x'' \<or> c1 = CHR ''X'' then Some 16
          else if c1 = CHR ''o'' \<or> c1 = CHR ''O'' then Some 8
          else if c1 = CHR ''b'' \<or> c1 = CHR ''B'' then Some 2
          else None
      | _ \<Rightarrow> None)"

text \<open>\<open>StringToNumber\<close>: the Number that \<open>Number(s)\<close> and the arithmetic operators read from a string.\<close>

definition StringToNumber :: "string \<Rightarrow> jsnum" where
  "StringToNumber s =
     (let t = trim s
      in if t = [] then Finite 0
         else (case radix_literal t of
                 Some b \<Rightarrow>
                   (case nonempty_digits b (drop 2 t) of
                      None \<Rightarrow> NaN
                    | Some n \<Rightarrow> Finite (of_nat n))
               | None \<Rightarrow>
                   (case t of
                      [] \<Rightarrow> Finite 0
                    | c # r \<Rightarrow>
                        if c = CHR ''+'' then unsigned_decimal r
                        else if c = CHR ''-'' then num_neg (unsigned_decimal r)
                        else unsigned_decimal t)))"

subsection \<open>Coercions and operators on values\<close>

definition ToNumber :: "jsval \<Rightarrow> jsnum" where
  "ToNumber v =
     (case v of
        Undefined \<Rightarrow> NaN
      | Null \<Rightarrow> Finite 0
      | Bool b \<Rightarrow> (if b then Finite 1 else Finite 0)
      | Num n \<Rightarrow> n
      | Str s \<Rightarrow> StringToNumber s)"

text \<open>\<open>Number(v)\<close>.\<close>

definition Number :: "jsval \<Rightarrow> jsval" where
  "Number v = Num (ToNumber v)"

text \<open>\<open>ToBoolean\<close>: what \<open>!v\<close>, \<open>v || w\<close> and \<open>v && w\<close> test.\<close>

definition truthy :: "jsval \<Rightarrow> bool" where
  "truthy v =
     (case v of
        Undefined \<Rightarrow> False
      | Null \<Rightarrow> False
      | Bool b \<Rightarrow> b
      | Num n \<Rightarrow> n \<noteq> NaN \<and> n \<noteq> Finite 0
      | Str s \<Rightarrow> s \<noteq> [])"

text \<open>\<open>v || w\<close>.\<close>

definition js_or :: "jsval \<Rightarrow> jsval \<Rightarrow> jsval" where
  "js_or v w = (if truthy v then v else w)"

text \<open>\<open>v < w\<close>: two strings compare by code units, anything else as Numbers.\<close>

definition js_lt :: "jsval \<Rightarrow> jsval \<Rightarrow> bool" where
  "js_lt v w =
     (case (v, w) of
        (Str s, Str t) \<Rightarrow> s < t
      | _ \<Rightarrow> num_lt (ToNumber v) (ToNumber w))"

text \<open>\<open>v > w\<close>.\<close>

definition js_gt :: "jsval \<Rightarrow> jsval \<Rightarrow> bool" where
  "js_gt v w = js_lt w v"

text \<open>\<open>v * w\<close>.\<close>

definition js_times :: "jsval \<Rightarrow> jsval \<Rightarrow> jsnum" where
  "js_times v w = num_mul (ToNumber v) (ToNumber w)"

text \<open>\<open>v - w\<close>.\<close>

definition js_minus :: "jsval \<Rightarrow> jsval \<Rightarrow> jsnum" where
  "js_minus v w = num_sub (ToNumber v) (ToNumber w)"

text \<open>
  \<open>v + d\<close> for an integer Number \<open>d\<close>: concatenation when \<open>v\<close> is a string,
  addition of Numbers otherwise.
\<close>

definition js_plus_int :: "jsval \<Rightarrow> int \<Rightarrow> jsval" where
  "js_plus_int v d =
     (case v of
        Str s \<Rightarrow> Str (s @ String_of_int d)
      | _ \<Rightarrow> Num (num_add (ToNumber v) (Finite (of_int d))))"

text \<open>\<open>Math.max(v, w)\<close>: both arguments are coerced; \<open>NaN\<close> if either is.\<close>

definition Math_max :: "jsval \<Rightarrow> jsval \<Rightarrow> jsval" where
  "Math_max v w =
     (let a = ToNumber v; b = ToNumber w
      in if a = NaN \<or> b = NaN then Num NaN
         else if num_lt a b then Num b else Num a)"

section \<open>Data model\<close>

text \<open>One price point of an item: \<^verbatim>\<open>{ storeName, price }\<close>.\<close>

record storePrice =
  storeName :: string
  price :: jsval

text \<open>
  An item. The fields that the code coerces, \<open>quantity\<close> and the \<open>price\<close> of a price
  point, range over all primitive values; the other fields have the type the application
  gives them. \<open>stores\<close> is \<open>None\<close> when the property is missing, \<open>undefined\<close> or
  \<open>null\<close>, the cases that \<^verbatim>\<open>item.stores || []\<close> and \<^verbatim>\<open>!item.stores\<close> catch.
  The property \<open>id\<close> is the field \<open>item_id\<close>, \<open>store_id\<close>, \<open>receipt_id\<close> or
  \<open>ri_id\<close> of its record.
\<close>

record item =
  item_id :: string
  name :: string
  category :: string
  status :: string
  quantity :: jsval
  barcode :: string
  imageUrl :: string
  stores :: "storePrice list option"

record store =
  store_id :: string
  store_name :: string

record receiptItem =
  ri_id :: string
  ri_name :: string
  ri_quantity :: jsval
  cheapestPrice :: jsval
  cheapestStore :: string
  ri_status :: string

record receipt =
  receipt_id :: string
  timestamp :: string
  filterUsed :: string
  estimatedTotal :: jsval
  itemCount :: nat
  receipt_items :: "receiptItem list"

definition MAX_REUSABLE_STORES :: nat where
  "MAX_REUSABLE_STORES = 50"

definition STATUS_CYCLE :: "string list" where
  "STATUS_CYCLE = [''Depleted'', ''Running Low'', ''Home Stocked'']"

section \<open>Application state\<close>

datatype log_level = console_log | console_warn | console_error

text \<open>
  The three IndexedDB object stores (\<open>db_\<close>), the three React state lists (\<open>st_\<close>), the
  view settings that \<^verbatim>\<open>filteredAndSortedItems\<close> reads, and the console.
\<close>

record app =
  db_items :: "item list"
  db_stores :: "store list"
  db_receipts :: "receipt list"
  st_items :: "item list"
  st_stores :: "store list"
  st_receipts :: "receipt list"
  filterStatus :: string
  searchTerm :: string
  sortCriteria :: string
  console :: "(log_level \<times> string) list"

definition log_entry :: "log_level \<Rightarrow> string \<Rightarrow> app \<Rightarrow> app" where
  "log_entry l msg a = a\<lparr>console := console a @ [(l, msg)]\<rparr>"

subsection \<open>Object stores keyed by \<open>id\<close>\<close>

text \<open>
  An object store created with \<^verbatim>\<open>keyPath: 'id'\<close> holds at most one record per key.
  \<open>store.add\<close> fails on a key that is present, which aborts the transaction (\<open>None\<close>);
  \<open>store.put\<close> replaces the record of that key or adds one. A store is listed in the order
  the records were added. A failure of the database itself is not represented.
\<close>

definition store_add :: "('a \<Rightarrow> string) \<Rightarrow> 'a \<Rightarrow> 'a list \<Rightarrow> 'a list option" where
  "store_add key x xs = (if key x \<in> set (map key xs) then None else Some (xs @ [x]))"

definition store_put :: "('a \<Rightarrow> string) \<Rightarrow> 'a \<Rightarrow> 'a list \<Rightarrow> 'a list" where
  "store_put key x xs =
     (if key x \<in> set (map key xs) then map (\<lambda>y. if key y = key x then x else y) xs
      else xs @ [x])"

fun add_all :: "('a \<Rightarrow> string) \<Rightarrow> 'a list \<Rightarrow> 'a list \<Rightarrow> 'a list option" where
  "add_all key [] acc = Some acc"
| "add_all key (x # xs) acc =
     (case store_add key x acc of None \<Rightarrow> None | Some acc' \<Rightarrow> add_all key xs acc')"

text \<open>The transaction \<^verbatim>\<open>store.clear(); xs.forEach(x => store.add(x))\<close>.\<close>

definition clear_and_add :: "('a \<Rightarrow> string) \<Rightarrow> 'a list \<Rightarrow> 'a list option" where
  "clear_and_add key xs = add_all key xs []"

section \<open>Item operations\<close>

text \<open>
  The local \<^verbatim>\<open>sanitizedStores\<close> of \<^verbatim>\<open>handleCreateItem\<close> and \<^verbatim>\<open>handleUpdateItem\<close>:
  \<^verbatim>\<open>(x.stores || []).filter(s => s.storeName && s.price !== undefined && s.price !== null)
        .map(s => ({ ...s, price: Number(s.price) }))\<close>.
\<close>

definition sanitizedStores :: "storePrice list option \<Rightarrow> storePrice list" where
  "sanitizedStores raw =
     map (\<lambda>s. s\<lparr>price := Number (price s)\<rparr>)
       (filter (\<lambda>s. storeName s \<noteq> [] \<and> price s \<noteq> Undefined \<and> price s \<noteq> Null)
          (case raw of None \<Rightarrow> [] | Some ss \<Rightarrow> ss))"


definition handleUpdateItem :: "item \<Rightarrow> app \<Rightarrow> app" where
  "handleUpdateItem updatedItem a =
     (let itemToSave = updatedItem
            \<lparr>name := trim (name updatedItem),
             stores := Some (sanitizedStores (stores updatedItem)),
             quantity := Math_max (Num (Finite 1)) (js_or (quantity updatedItem) (Num (Finite 1)))\<rparr>
      in a\<lparr>db_items := store_put item_id itemToSave (db_items a),
           st_items := map (\<lambda>item. if item_id item = item_id itemToSave then itemToSave else item)
                         (st_items a)\<rparr>)"

text \<open>\<open>delta\<close> is an integer Number; the callers pass \<open>1\<close> and \<open>-1\<close>.\<close>

definition handleUpdateQuantity :: "string \<Rightarrow> int \<Rightarrow> app \<Rightarrow> app" where
  "handleUpdateQuantity itemId delta a =
     (let updatedItems =
            map (\<lambda>item.
                   if item_id item = itemId
                   then (let newQuantity = Math_max (Num (Finite 1)) (js_plus_int (quantity item) delta)
                         in item\<lparr>quantity := newQuantity\<rparr>)
                   else item)
              (st_items a);
          itemToUpdate = find (\<lambda>i. item_id i = itemId) updatedItems
      in case itemToUpdate of
           None \<Rightarrow> a
         | Some it \<Rightarrow> a\<lparr>db_items := store_put item_id it (db_items a), st_items := updatedItems\<rparr>)"

subsection \<open>Status cycling\<close>

text \<open>\<open>xs.indexOf(x)\<close>: the first index of \<open>x\<close>, or \<open>-1\<close>.\<close>

fun indexOf :: "'a list \<Rightarrow> 'a \<Rightarrow> int" where
  "indexOf [] x = - 1"
| "indexOf (y # ys) x =
     (if y = x then 0 else (let i = indexOf ys x in if i < 0 then - 1 else i + 1))"

text \<open>\<open>a % b\<close> on integers: the remainder has the sign of the dividend.\<close>

definition js_rem :: "int \<Rightarrow> int \<Rightarrow> int" where
  "js_rem a b = sgn a * (\<bar>a\<bar> mod \<bar>b\<bar>)"

text \<open>\<open>xs[i]\<close>: \<open>None\<close> stands for \<open>undefined\<close>, the value outside the array.\<close>

definition array_at :: "'a list \<Rightarrow> int \<Rightarrow> 'a option" where
  "array_at xs i = (if 0 \<le> i \<and> i < int (length xs) then Some (xs ! nat i) else None)"

definition newStatus :: "string \<Rightarrow> string option" where
  "newStatus s =
     (let currentIndex = indexOf STATUS_CYCLE s;
          nextIndex = js_rem (currentIndex + 1) (int (length STATUS_CYCLE))
      in array_at STATUS_CYCLE nextIndex)"

text \<open>
  The branch \<open>None\<close> keeps the item; it is never taken, since \<open>nextIndex\<close> is 0, 1 or 2
  (lemma \<open>newStatus_defined\<close>).
\<close>

definition handleCycleStatus :: "string \<Rightarrow> app \<Rightarrow> app" where
  "handleCycleStatus itemId a =
     (let updatedItems =
            map (\<lambda>item.
                   if item_id item = itemId
                   then (case newStatus (status item) of
                           Some s \<Rightarrow> item\<lparr>status := s\<rparr>
                         | None \<Rightarrow> item)
                   else item)
              (st_items a);
          itemToUpdate = find (\<lambda>i. item_id i = itemId) updatedItems
      in case itemToUpdate of
           None \<Rightarrow> a
         | Some it \<Rightarrow> a\<lparr>db_items := store_put item_id it (db_items a), st_items := updatedItems\<rparr>)"

section \<open>Pricing, filtering and sorting\<close>

definition getCheapestOption :: "item \<Rightarrow> storePrice" where
  "getCheapestOption it =
     (case stores it of
        None \<Rightarrow> \<lparr>storeName = ''N/A'', price = Null\<rparr>
      | Some ss \<Rightarrow>
          if length ss = 0 then \<lparr>storeName = ''N/A'', price = Null\<rparr>
          else
            (let validPrices = filter (\<lambda>s. js_gt (price s) (Num (Finite 0))) ss
             in case validPrices of
                  [] \<Rightarrow> \<lparr>storeName = ''N/A'', price = Null\<rparr>
                | v0 # _ \<Rightarrow>
                    (let cheapest =
                           foldl (\<lambda>min current. if js_lt (price current) (price min) then current else min)
                             v0 validPrices
                     in \<lparr>storeName = storeName cheapest, price = price cheapest\<rparr>)))"

text \<open>
  \<open>Array.prototype.sort\<close> with a comparator. The sort is stable; a result of the comparator
  that is \<open>NaN\<close> counts as 0. It is written as insertion from the right: an element moves
  behind exactly the elements that the comparator puts strictly before it. For a consistent
  comparator this is the order every conforming engine returns.
\<close>

definition positive :: "jsnum \<Rightarrow> bool" where
  "positive v = num_lt (Finite 0) v"

fun insert_sorted :: "('a \<Rightarrow> 'a \<Rightarrow> jsnum) \<Rightarrow> 'a \<Rightarrow> 'a list \<Rightarrow> 'a list" where
  "insert_sorted cmp x [] = [x]"
| "insert_sorted cmp x (y # ys) =
     (if positive (cmp x y) then y # insert_sorted cmp x ys else x # y # ys)"

definition Array_sort :: "('a \<Rightarrow> 'a \<Rightarrow> jsnum) \<Rightarrow> 'a list \<Rightarrow> 'a list" where
  "Array_sort cmp xs = foldr (insert_sorted cmp) xs []"

text \<open>The object literal \<^verbatim>\<open>statusOrder\<close>, read at a key.\<close>

definition statusOrder :: "string \<Rightarrow> jsval" where
  "statusOrder s =
     (case map_of [(''Depleted'', 1), (''Running Low'', 2), (''Home Stocked'', 3)] s of
        Some r \<Rightarrow> Num (Finite r)
      | None \<Rightarrow> Undefined)"

text \<open>
  The key of the \<^verbatim>\<open>cheapestPrice\<close> ordering:
  \<^verbatim>\<open>(getCheapestOption(a).price || Infinity) * (a.quantity || 1)\<close>.
\<close>

definition cheapestPriceValue :: "item \<Rightarrow> jsnum" where
  "cheapestPriceValue a =
     js_times (js_or (price (getCheapestOption a)) (Num Infinity))
              (js_or (quantity a) (Num (Finite 1)))"

text \<open>
  The comparator of \<^verbatim>\<open>sorted.sort\<close>; \<open>criteria\<close> is \<open>None\<close> when the split of
  \<^verbatim>\<open>sortCriteria\<close> has no first component.
\<close>

definition compareItems :: "string option \<Rightarrow> jsnum \<Rightarrow> item \<Rightarrow> item \<Rightarrow> jsnum" where
  "compareItems criteria direction a b =
     (if criteria = Some ''name'' \<or> criteria = Some ''category'' then
        (let aValue = toLowerCase (if criteria = Some ''name'' then name a else category a);
             bValue = toLowerCase (if criteria = Some ''name'' then name b else category b)
         in if aValue < bValue then num_mul (Finite (- 1)) direction
            else if aValue > bValue then num_mul (Finite 1) direction
            else Finite 0)
      else if criteria = Some ''status'' then
        num_mul (js_minus (statusOrder (status a)) (statusOrder (status b))) direction
      else if criteria = Some ''cheapestPrice'' then
        (let aValue = cheapestPriceValue a;
             bValue = cheapestPriceValue b
         in num_mul (num_sub aValue bValue) direction)
      else if criteria = Some ''store'' then
        (let aValue = toLowerCase (storeName (getCheapestOption a));
             bValue = toLowerCase (storeName (getCheapestOption b))
         in if aValue < bValue then num_mul (Finite (- 1)) direction
            else if aValue > bValue then num_mul (Finite 1) direction
            else Finite 0)
      else Finite 0)"

text \<open>Step 1 of \<^verbatim>\<open>filteredAndSortedItems\<close>: the search term.\<close>

definition searchFilter :: "string \<Rightarrow> item list \<Rightarrow> item list" where
  "searchFilter term filtered =
     (let lowerCaseSearchTerm = trim (toLowerCase term)
      in if lowerCaseSearchTerm \<noteq> []
         then filter (\<lambda>item. String_includes (toLowerCase (name item)) lowerCaseSearchTerm) filtered
         else filtered)"

text \<open>Step 2: the status filter.\<close>

definition statusFilter :: "string \<Rightarrow> item list \<Rightarrow> item list" where
  "statusFilter fs filtered =
     (if fs = ''Depleted'' then filter (\<lambda>item. status item = ''Depleted'') filtered
      else if fs = ''Running Low'' then filter (\<lambda>item. status item = ''Running Low'') filtered
      else if fs = ''Shopping Cart''
        then filter (\<lambda>item. status item = ''Depleted'' \<or> status item = ''Running Low'') filtered
      else filtered)"

text \<open>Step 3: \<^verbatim>\<open>const [criteria, directionStr] = sortCriteria.split('-')\<close> and the sort.\<close>

definition sortItems :: "string \<Rightarrow> item list \<Rightarrow> item list" where
  "sortItems sc filtered =
     (let parts = String_split CHR ''-'' sc;
          criteria = (case parts of [] \<Rightarrow> None | c # _ \<Rightarrow> Some c);
          directionStr = (case parts of _ # d # _ \<Rightarrow> Some d | _ \<Rightarrow> None);
          direction = (if directionStr = Some ''asc'' then Finite 1 else Finite (- 1))
      in Array_sort (compareItems criteria direction) filtered)"

definition filteredAndSortedItems :: "app \<Rightarrow> item list" where
  "filteredAndSortedItems a =
     sortItems (sortCriteria a) (statusFilter (filterStatus a) (searchFilter (searchTerm a) (st_items a)))"

definition totalVisibleItemCount :: "app \<Rightarrow> nat" where
  "totalVisibleItemCount a = length (filteredAndSortedItems a)"

definition totalEstimatedCost :: "app \<Rightarrow> jsnum" where
  "totalEstimatedCost a =
     foldl (\<lambda>total item.
              num_add total
                (js_times (js_or (price (getCheapestOption item)) (Num (Finite 0)))
                          (js_or (quantity item) (Num (Finite 1)))))
       (Finite 0) (filteredAndSortedItems a)"

section \<open>Receipts\<close>

text \<open>\<open>uuid\<close> is \<^verbatim>\<open>crypto.randomUUID()\<close>, \<open>now\<close> is \<^verbatim>\<open>new Date().toISOString()\<close>.\<close>

definition handleLogReceipt :: "string \<Rightarrow> string \<Rightarrow> app \<Rightarrow> app" where
  "handleLogReceipt uuid now a =
     (if totalVisibleItemCount a = 0
      then log_entry console_warn ''Cannot log receipt: No visible items.'' a
      else
        (let receipt =
               \<lparr>receipt_id = uuid,
                timestamp = now,
                filterUsed = filterStatus a @
                  (if searchTerm a \<noteq> [] then '' (Search: '' @ searchTerm a @ '')'' else []),
                estimatedTotal = Num (totalEstimatedCost a),
                itemCount = length (filteredAndSortedItems a),
                receipt_items =
                  map (\<lambda>item.
                         (let cheapest = getCheapestOption item
                          in \<lparr>ri_id = item_id item,
                              ri_name = name item,
                              ri_quantity = quantity item,
                              cheapestPrice = price cheapest,
                              cheapestStore = storeName cheapest,
                              ri_status = status item\<rparr>))
                    (filteredAndSortedItems a)\<rparr>
         in case store_add receipt_id receipt (db_receipts a) of
              Some db \<Rightarrow>
                log_entry console_log ''Receipt logged successfully to IndexedDB.''
                  (a\<lparr>db_receipts := db, st_receipts := receipt # st_receipts a\<rparr>)
            | None \<Rightarrow>
                log_entry console_error ''Failed to log receipt to DB:''
                  (log_entry console_error ''Transaction error (receipts): '' a)))"

section \<open>Import and export\<close>

text \<open>
  The object that the export serialises and the import parses. A collection is \<open>None\<close> when
  the property is missing or is not an array, which is what \<^verbatim>\<open>Array.isArray\<close> tells apart.
\<close>

record document =
  doc_items :: "item list option"
  doc_stores :: "store list option"
  doc_receipts :: "receipt list option"
  doc_timestamp :: "string option"

text \<open>
  The outcome of selecting and reading a file: no file selected; the reader fails; a result
  that is not a string; a text that \<^verbatim>\<open>JSON.parse\<close> rejects; a text that parses to a
  falsy value (\<open>null\<close>, \<open>false\<close>, \<open>0\<close>, the empty string); or a text that parses
  to a value with the properties of \<open>document\<close>. The elements of the arrays are records of
  the data model.
\<close>

datatype file_result = NoFile | ReadError | NotAString | Malformed | Falsy | Data document






text \<open>The \<^verbatim>\<open>catch\<close> block of the import.\<close>

definition import_failed :: "app \<Rightarrow> app" where
  "import_failed a = log_entry console_error ''Error importing data:'' a"

text \<open>The local \<^verbatim>\<open>sanitizedItems\<close> of the import.\<close>

definition sanitizedItems :: "item list \<Rightarrow> item list" where
  "sanitizedItems its =
     map (\<lambda>item. item\<lparr>quantity := Math_max (Num (Finite 1)) (js_or (quantity item) (Num (Finite 1)))\<rparr>)
       its"

text \<open>
  \<^verbatim>\<open>handleImportData\<close> with its \<^verbatim>\<open>reader.onload\<close>. The three transactions run one
  after the other; the first that aborts ends the import in the \<^verbatim>\<open>catch\<close> block.
\<close>

definition handleImportData :: "file_result \<Rightarrow> app \<Rightarrow> app" where
  "handleImportData result a =
     (case result of
        NoFile \<Rightarrow> a
      | ReadError \<Rightarrow> log_entry console_error ''FileReader failed to read file.'' a
      | NotAString \<Rightarrow> import_failed a
      | Malformed \<Rightarrow> import_failed a
      | Falsy \<Rightarrow> import_failed a
      | Data importedData \<Rightarrow>
          (case (doc_items importedData, doc_stores importedData) of
             (Some its, Some sts) \<Rightarrow>
               (let sItems = sanitizedItems its;
                    sStores = take MAX_REUSABLE_STORES sts;
                    sReceipts = (case doc_receipts importedData of Some rs \<Rightarrow> rs | None \<Rightarrow> [])
                in case clear_and_add item_id sItems of
                     None \<Rightarrow> import_failed (log_entry console_error ''Transaction error (items): '' a)
                   | Some di \<Rightarrow>
                       (let a1 = a\<lparr>db_items := di\<rparr>
                        in case clear_and_add store_id sStores of
                             None \<Rightarrow>
                               import_failed (log_entry console_error ''Transaction error (stores): '' a1)
                           | Some ds \<Rightarrow>
                               (let a2 = a1\<lparr>db_stores := ds\<rparr>
                                in case clear_and_add receipt_id sReceipts of
                                     None \<Rightarrow>
                                       import_failed
                                         (log_entry console_error ''Transaction error (receipts): '' a2)
                                   | Some dr \<Rightarrow>
                                       log_entry console_log
                                         ''Data imported successfully! Items: %d, Stores: %d, Receipts: %d''
                                         (a2\<lparr>db_receipts := dr,
                                             st_items := sItems,
                                             st_stores := sStores,
                                             st_receipts := sReceipts\<rparr>))))
           | _ \<Rightarrow> import_failed a))"

section \<open>The item form and the write operations\<close>





section \<open>Example data\<close>

definition example_milk :: item where
  "example_milk =
     \<lparr>item_id = ''i1'', name = ''Milk'', category = ''Dairy'', status = ''Depleted'',
      quantity = Num (Finite 2), barcode = [], imageUrl = [],
      stores = Some [\<lparr>storeName = ''A'', price = Num (Finite (7 / 2))\<rparr>,
                     \<lparr>storeName = ''B'', price = Num (Finite 2)\<rparr>,
                     \<lparr>storeName = ''C'', price = Num (Finite 2)\<rparr>]\<rparr>"

definition example_bread :: item where
  "example_bread =
     \<lparr>item_id = ''i2'', name = ''Bread'', category = ''Pantry'', status = ''Home Stocked'',
      quantity = Num (Finite 1), barcode = [], imageUrl = [], stores = Some []\<rparr>"

definition example_store :: store where
  "example_store = \<lparr>store_id = ''s1'', store_name = ''A''\<rparr>"

definition example_app :: app where
  "example_app =
     \<lparr>db_items = [example_milk, example_bread], db_stores = [example_store], db_receipts = [],
      st_items = [example_milk, example_bread], st_stores = [example_store], st_receipts = [],
      filterStatus = ''All'', searchTerm = [], sortCriteria = ''name-asc'', console = []\<rparr>"

text \<open>An item of an import file whose name, price points and quantity are not normalised.\<close>

definition example_raw_item :: item where
  "example_raw_item =
     \<lparr>item_id = ''i9'', name = ''  Milk '', category = ''Dairy'', status = ''Depleted'',
      quantity = Num (Finite 0), barcode = [], imageUrl = [],
      stores = Some [\<lparr>storeName = [], price = Str ''3''\<rparr>,
                     \<lparr>storeName = ''Aldi'', price = Str ''2.50''\<rparr>]\<rparr>"

definition example_raw_file :: file_result where
  "example_raw_file =
     Data \<lparr>doc_items = Some [example_raw_item], doc_stores = Some [example_store],
           doc_receipts = None, doc_timestamp = None\<rparr>"


section \<open>Properties\<close>

subsection \<open>Auxiliary facts\<close>

lemma log_entry_simps:
  "db_items (log_entry l m a) = db_items a" "db_stores (log_entry l m a) = db_stores a"
  "db_receipts (log_entry l m a) = db_receipts a" "st_items (log_entry l m a) = st_items a"
  "st_stores (log_entry l m a) = st_stores a" "st_receipts (log_entry l m a) = st_receipts a"
  "console (log_entry l m a) = console a @ [(l, m)]"
  by (simp_all add: log_entry_def)

lemma find_map_same_id:
  assumes "\<And>x. item_id (f x) = item_id x"
  shows "find (\<lambda>i. item_id i = k) (map f xs) = map_option f (find (\<lambda>i. item_id i = k) xs)"
  using assms by (induction xs) auto

lemma find_None_map_id:
  "find (\<lambda>i. item_id i = k) xs = None \<Longrightarrow> map (\<lambda>x. if item_id x = k then f x else x) xs = xs"
  by (induction xs) (auto split: if_splits)

subsection \<open>Status cycle\<close>

lemma newStatus_cases:
  "newStatus s = Some (if s = ''Depleted'' then ''Running Low''
                       else if s = ''Running Low'' then ''Home Stocked'' else ''Depleted'')"
  by (simp add: newStatus_def STATUS_CYCLE_def js_rem_def array_at_def Let_def)

lemma newStatus_defined: "newStatus s \<noteq> None"
  by (simp add: newStatus_cases)

lemma cycle_st_items:
  "st_items (handleCycleStatus itemId a) =
     map (\<lambda>item. if item_id item = itemId then item\<lparr>status := the (newStatus (status item))\<rparr> else item)
       (st_items a)"
proof -
  let ?f = "\<lambda>item. if item_id item = itemId then item\<lparr>status := the (newStatus (status item))\<rparr> else item"
  have upd: "(\<lambda>item. if item_id item = itemId
                   then (case newStatus (status item) of Some s \<Rightarrow> item\<lparr>status := s\<rparr> | None \<Rightarrow> item)
                   else item) = ?f"
    by (rule ext) (simp add: newStatus_cases)
  have fnd: "find (\<lambda>i. item_id i = itemId) (map ?f (st_items a)) =
             map_option ?f (find (\<lambda>i. item_id i = itemId) (st_items a))"
    by (rule find_map_same_id) simp
  show ?thesis
  proof (cases "find (\<lambda>i. item_id i = itemId) (st_items a)")
    case None
    then show ?thesis
      using find_None_map_id[OF None, of "\<lambda>item. item\<lparr>status := the (newStatus (status item))\<rparr>"]
      by (simp add: handleCycleStatus_def upd fnd)
  next
    case (Some it)
    then show ?thesis by (simp add: handleCycleStatus_def upd fnd)
  qed
qed

text \<open>
  Claim C9. Cycling the status of an item moves it along Depleted, Running Low, Home Stocked
  and back to Depleted, and a status outside these three becomes Depleted: the status after
  \<open>newStatus\<close> is given for the three values and for every other string, and
  \<open>handleCycleStatus\<close> gives exactly that status to each item of the list that has the
  identifier, leaving the other items as they are.
\<close>

theorem cycle_status_advances:
  "newStatus ''Depleted'' = Some ''Running Low''
   \<and> newStatus ''Running Low'' = Some ''Home Stocked''
   \<and> newStatus ''Home Stocked'' = Some ''Depleted''
   \<and> (s \<notin> set STATUS_CYCLE \<longrightarrow> newStatus s = Some ''Depleted'')
   \<and> st_items (handleCycleStatus itemId a) =
       map (\<lambda>item. if item_id item = itemId
                    then item\<lparr>status := (if status item = ''Depleted'' then ''Running Low''
                                          else if status item = ''Running Low'' then ''Home Stocked''
                                          else ''Depleted'')\<rparr>
                    else item)
         (st_items a)"
proof -
  have "st_items (handleCycleStatus itemId a) =
       map (\<lambda>item. if item_id item = itemId
                    then item\<lparr>status := (if status item = ''Depleted'' then ''Running Low''
                                          else if status item = ''Running Low'' then ''Home Stocked''
                                          else ''Depleted'')\<rparr>
                    else item)
         (st_items a)"
    by (simp add: cycle_st_items newStatus_cases)
  moreover have "s \<notin> set STATUS_CYCLE \<longrightarrow> newStatus s = Some ''Depleted''"
    by (simp add: newStatus_cases STATUS_CYCLE_def)
  ultimately show ?thesis by (simp add: newStatus_cases)
qed

theorem cycle_status_advances_witness:
  "''Unknown'' \<notin> set STATUS_CYCLE
   \<and> newStatus ''Unknown'' = Some ''Depleted''
   \<and> map status (st_items (handleCycleStatus ''i1'' example_app)) = [''Running Low'', ''Home Stocked'']
   \<and> map status (st_items (handleCycleStatus ''i2'' example_app)) = [''Depleted'', ''Depleted'']"
  using cycle_status_advances[of "''Unknown''" "''i1''" example_app]
        cycle_status_advances[of "''Unknown''" "''i2''" example_app]
  by (simp add: STATUS_CYCLE_def example_app_def example_milk_def example_bread_def)

subsection \<open>Receipts\<close>

text \<open>
  Claim C8. When the visible list is empty, \<open>handleLogReceipt\<close> only writes the warning to
  the console: the state is otherwise the one before, so the receipts object store and the
  receipts list are unchanged.
\<close>

theorem empty_receipt_guard:
  assumes "filteredAndSortedItems a = []"
  shows "handleLogReceipt uuid now a =
           a\<lparr>console := console a @ [(console_warn, ''Cannot log receipt: No visible items.'')]\<rparr>
         \<and> db_receipts (handleLogReceipt uuid now a) = db_receipts a
         \<and> st_receipts (handleLogReceipt uuid now a) = st_receipts a"
  using assms by (simp add: handleLogReceipt_def totalVisibleItemCount_def log_entry_def)

lemma example_hidden: "filteredAndSortedItems (example_app\<lparr>searchTerm := ''zz''\<rparr>) = []"
  by code_simp

theorem empty_receipt_guard_witness:
  "filteredAndSortedItems (example_app\<lparr>searchTerm := ''zz''\<rparr>) = []
   \<and> st_receipts (handleLogReceipt ''r1'' ''2024-01-01T00:00:00.000Z''
        (example_app\<lparr>searchTerm := ''zz''\<rparr>)) = []
   \<and> db_receipts (handleLogReceipt ''r1'' ''2024-01-01T00:00:00.000Z''
        (example_app\<lparr>searchTerm := ''zz''\<rparr>)) = []"
  using empty_receipt_guard[OF example_hidden, of "''r1''" "''2024-01-01T00:00:00.000Z''"] example_hidden
  by (simp add: example_app_def)

subsection \<open>Import\<close>

text \<open>
  Claim C6. An import whose file is not a string, does not parse, parses to a falsy value, or
  lacks the \<open>items\<close> array or the \<open>stores\<close> array is rejected: the state after it is the
  state before it with one error on the console, so the three object stores and the three
  lists in memory are unchanged.
\<close>

theorem import_failure_leaves_state:
  assumes "result = NotAString \<or> result = Malformed \<or> result = Falsy
           \<or> (\<exists>d. result = Data d \<and> (doc_items d = None \<or> doc_stores d = None))"
  shows "handleImportData result a =
           a\<lparr>console := console a @ [(console_error, ''Error importing data:'')]\<rparr>
         \<and> db_items (handleImportData result a) = db_items a
         \<and> db_stores (handleImportData result a) = db_stores a
         \<and> db_receipts (handleImportData result a) = db_receipts a
         \<and> st_items (handleImportData result a) = st_items a
         \<and> st_stores (handleImportData result a) = st_stores a
         \<and> st_receipts (handleImportData result a) = st_receipts a"
proof -
  have "handleImportData result a = import_failed a"
    using assms by (auto simp: handleImportData_def split: option.splits)
  then show ?thesis by (simp add: import_failed_def log_entry_def)
qed

theorem import_failure_leaves_state_witness:
  "(let r = Data \<lparr>doc_items = Some [example_bread], doc_stores = None,
                  doc_receipts = None, doc_timestamp = None\<rparr>
    in st_items (handleImportData r example_app) = [example_milk, example_bread]
       \<and> db_items (handleImportData r example_app) = [example_milk, example_bread]
       \<and> st_stores (handleImportData r example_app) = [example_store]
       \<and> db_stores (handleImportData r example_app) = [example_store]
       \<and> st_receipts (handleImportData r example_app) = []
       \<and> db_receipts (handleImportData r example_app) = [])"
  using import_failure_leaves_state
          [of "Data \<lparr>doc_items = Some [example_bread], doc_stores = None,
                     doc_receipts = None, doc_timestamp = None\<rparr>" example_app]
  by (simp add: example_app_def)

subsection \<open>Filtering\<close>

lemma String_includes_iff: "String_includes s t \<longleftrightarrow> (\<exists>pre post. s = pre @ t @ post)"
proof (induction s)
  case Nil
  then show ?case by auto
next
  case (Cons c cs)
  have "(\<exists>pre post. c # cs = pre @ t @ post) \<longleftrightarrow> prefix t (c # cs) \<or> (\<exists>pre post. cs = pre @ t @ post)"
  proof
    assume "\<exists>pre post. c # cs = pre @ t @ post"
    then obtain pre post where e: "c # cs = pre @ t @ post" by blast
    show "prefix t (c # cs) \<or> (\<exists>pre post. cs = pre @ t @ post)"
    proof (cases pre)
      case Nil
      with e show ?thesis by (auto simp: prefix_def)
    next
      case (Cons p ps)
      with e have "cs = ps @ t @ post" by simp
      then show ?thesis by blast
    qed
  next
    assume "prefix t (c # cs) \<or> (\<exists>pre post. cs = pre @ t @ post)"
    then show "\<exists>pre post. c # cs = pre @ t @ post"
    proof
      assume "prefix t (c # cs)"
      then obtain post where "c # cs = t @ post" by (auto simp: prefix_def)
      then have "c # cs = [] @ t @ post" by simp
      then show ?thesis by blast
    next
      assume "\<exists>pre post. cs = pre @ t @ post"
      then obtain pre post where "cs = pre @ t @ post" by blast
      then have "c # cs = (c # pre) @ t @ post" by simp
      then show ?thesis by blast
    qed
  qed
  with Cons show ?case by simp
qed

lemma isWhiteSpace_lowerChar: "isWhiteSpace (lowerChar c) = isWhiteSpace c"
  by (auto simp: isWhiteSpace_def lowerChar_def Let_def)

lemma dropWhile_lower:
  "dropWhile isWhiteSpace (map lowerChar xs) = map lowerChar (dropWhile isWhiteSpace xs)"
proof -
  have comp: "isWhiteSpace \<circ> lowerChar = isWhiteSpace"
    by (rule ext) (simp add: isWhiteSpace_lowerChar)
  show ?thesis by (simp add: dropWhile_map comp)
qed

lemma trim_toLowerCase: "trim (toLowerCase s) = toLowerCase (trim s)"
  by (simp add: trim_def toLowerCase_def dropWhile_lower rev_map)

lemma toLowerCase_Nil_iff: "toLowerCase s = [] \<longleftrightarrow> s = []"
  by (simp add: toLowerCase_def)

lemma searchFilter_char:
  "searchFilter term xs =
     filter (\<lambda>item. \<exists>pre post. toLowerCase (name item) = pre @ toLowerCase (trim term) @ post) xs"
proof (cases "trim term = []")
  case True
  have "\<And>s::string. \<exists>pre post. s = pre @ toLowerCase [] @ post"
    by (simp add: toLowerCase_def) (metis append_Nil2)
  with True show ?thesis
    by (simp add: searchFilter_def trim_toLowerCase toLowerCase_Nil_iff)
next
  case False
  then show ?thesis
    by (simp add: searchFilter_def trim_toLowerCase String_includes_iff toLowerCase_Nil_iff)
qed

lemma statusFilter_char:
  "statusFilter fs xs =
     filter (\<lambda>item. if fs = ''Depleted'' then status item = ''Depleted''
                     else if fs = ''Running Low'' then status item = ''Running Low''
                     else if fs = ''Shopping Cart''
                       then status item = ''Depleted'' \<or> status item = ''Running Low''
                     else True) xs"
  by (simp add: statusFilter_def)

lemma Array_sort_single: "Array_sort cmp [x] = [x]" and Array_sort_Nil: "Array_sort cmp [] = []"
  by (simp_all add: Array_sort_def)

lemma example_strings:
  "trim (toLowerCase ''mi'') = ''mi''" "trim (toLowerCase []) = []"
  "String_includes (toLowerCase ''Milk'') ''mi''" "\<not> String_includes (toLowerCase ''Bread'') ''mi''"
  by code_simp+

text \<open>
  Claim C7. The visible list is the sorted result of two filters applied in this order: first
  the items whose lower-cased name contains the trimmed, lower-cased search term (all items
  when the term is empty or white space), then the items of the selected status (Depleted,
  Running Low, their union for Shopping Cart, all items otherwise, in particular for All).
  For Milk (Depleted) and Bread (Home Stocked), the search \<open>mi\<close> with All gives Milk alone,
  and Shopping Cart with an empty search gives Milk alone.
\<close>

theorem filter_composition:
  "filteredAndSortedItems a =
     sortItems (sortCriteria a)
       (filter (\<lambda>item. if filterStatus a = ''Depleted'' then status item = ''Depleted''
                        else if filterStatus a = ''Running Low'' then status item = ''Running Low''
                        else if filterStatus a = ''Shopping Cart''
                          then status item = ''Depleted'' \<or> status item = ''Running Low''
                        else True)
          (filter (\<lambda>item. \<exists>pre post. toLowerCase (name item) = pre @ toLowerCase (trim (searchTerm a)) @ post)
             (st_items a)))
   \<and> (trim (searchTerm a) = [] \<longrightarrow> searchFilter (searchTerm a) (st_items a) = st_items a)
   \<and> (filterStatus a = ''All'' \<longrightarrow> statusFilter (filterStatus a) xs = xs)
   \<and> filteredAndSortedItems
         (a\<lparr>st_items := [m\<lparr>name := ''Milk'', status := ''Depleted''\<rparr>,
                          b\<lparr>name := ''Bread'', status := ''Home Stocked''\<rparr>],
            searchTerm := ''mi'', filterStatus := ''All''\<rparr>)
       = [m\<lparr>name := ''Milk'', status := ''Depleted''\<rparr>]
   \<and> filteredAndSortedItems
         (a\<lparr>st_items := [m\<lparr>name := ''Milk'', status := ''Depleted''\<rparr>,
                          b\<lparr>name := ''Bread'', status := ''Home Stocked''\<rparr>],
            searchTerm := '''', filterStatus := ''Shopping Cart''\<rparr>)
       = [m\<lparr>name := ''Milk'', status := ''Depleted''\<rparr>]"
proof (intro conjI)
  show "filteredAndSortedItems a =
     sortItems (sortCriteria a)
       (filter (\<lambda>item. if filterStatus a = ''Depleted'' then status item = ''Depleted''
                        else if filterStatus a = ''Running Low'' then status item = ''Running Low''
                        else if filterStatus a = ''Shopping Cart''
                          then status item = ''Depleted'' \<or> status item = ''Running Low''
                        else True)
          (filter (\<lambda>item. \<exists>pre post. toLowerCase (name item) = pre @ toLowerCase (trim (searchTerm a)) @ post)
             (st_items a)))"
    unfolding filteredAndSortedItems_def searchFilter_char statusFilter_char ..
  show "trim (searchTerm a) = [] \<longrightarrow> searchFilter (searchTerm a) (st_items a) = st_items a"
    by (simp add: searchFilter_def trim_toLowerCase toLowerCase_Nil_iff)
  show "filterStatus a = ''All'' \<longrightarrow> statusFilter (filterStatus a) xs = xs"
    by (simp add: statusFilter_def)
  show "filteredAndSortedItems
         (a\<lparr>st_items := [m\<lparr>name := ''Milk'', status := ''Depleted''\<rparr>,
                          b\<lparr>name := ''Bread'', status := ''Home Stocked''\<rparr>],
            searchTerm := ''mi'', filterStatus := ''All''\<rparr>)
       = [m\<lparr>name := ''Milk'', status := ''Depleted''\<rparr>]"
    by (simp add: filteredAndSortedItems_def searchFilter_def statusFilter_def sortItems_def
        Array_sort_single example_strings Let_def)
  show "filteredAndSortedItems
         (a\<lparr>st_items := [m\<lparr>name := ''Milk'', status := ''Depleted''\<rparr>,
                          b\<lparr>name := ''Bread'', status := ''Home Stocked''\<rparr>],
            searchTerm := '''', filterStatus := ''Shopping Cart''\<rparr>)
       = [m\<lparr>name := ''Milk'', status := ''Depleted''\<rparr>]"
    by (simp add: filteredAndSortedItems_def searchFilter_def statusFilter_def sortItems_def
        Array_sort_single example_strings Let_def)
qed

lemma example_blank: "trim ''  '' = []"
  by code_simp

theorem filter_composition_witness:
  "trim (searchTerm (example_app\<lparr>searchTerm := ''  ''\<rparr>)) = []
   \<and> searchFilter ''  '' [example_milk, example_bread] = [example_milk, example_bread]
   \<and> filterStatus example_app = ''All''
   \<and> statusFilter ''All'' [example_bread] = [example_bread]
   \<and> filteredAndSortedItems (example_app\<lparr>searchTerm := ''mi'', filterStatus := ''All''\<rparr>) = [example_milk]
   \<and> filteredAndSortedItems (example_app\<lparr>searchTerm := '''', filterStatus := ''Shopping Cart''\<rparr>) = [example_milk]"
  using filter_composition[of "example_app\<lparr>searchTerm := ''  ''\<rparr>" "[example_bread]" example_milk example_bread]
        filter_composition[of "example_app" "[example_bread]" example_milk example_bread]
  by (simp add: example_app_def example_milk_def example_bread_def example_blank)

subsection \<open>Quantity updates\<close>

lemma store_put_other_keys:
  "filter (\<lambda>r. key r \<noteq> key x) (store_put key x xs) = filter (\<lambda>r. key r \<noteq> key x) xs"
proof -
  have "filter (\<lambda>r. key r \<noteq> key x) (map (\<lambda>y. if key y = key x then x else y) xs)
        = filter (\<lambda>r. key r \<noteq> key x) xs"
    by (induction xs) auto
  then show ?thesis by (simp add: store_put_def)
qed

lemma update_quantity_st_items:
  "st_items (handleUpdateQuantity itemId delta a) =
     map (\<lambda>item. if item_id item = itemId
                  then item\<lparr>quantity := Math_max (Num (Finite 1)) (js_plus_int (quantity item) delta)\<rparr>
                  else item)
       (st_items a)"
proof -
  let ?g = "\<lambda>item. item\<lparr>quantity := Math_max (Num (Finite 1)) (js_plus_int (quantity item) delta)\<rparr>"
  let ?f = "\<lambda>item. if item_id item = itemId then ?g item else item"
  have upd: "(\<lambda>item. if item_id item = itemId
                   then (let newQuantity = Math_max (Num (Finite 1)) (js_plus_int (quantity item) delta)
                         in item\<lparr>quantity := newQuantity\<rparr>)
                   else item) = ?f"
    by (rule ext) (simp add: Let_def)
  have fnd: "find (\<lambda>i. item_id i = itemId) (map ?f (st_items a)) =
             map_option ?f (find (\<lambda>i. item_id i = itemId) (st_items a))"
    by (rule find_map_same_id) simp
  show ?thesis
  proof (cases "find (\<lambda>i. item_id i = itemId) (st_items a)")
    case None
    then show ?thesis
      using find_None_map_id[OF None, of ?g]
      by (simp add: handleUpdateQuantity_def upd fnd)
  next
    case (Some it)
    then show ?thesis by (simp add: handleUpdateQuantity_def upd fnd)
  qed
qed

lemma update_quantity_db_items:
  "db_items (handleUpdateQuantity itemId delta a) =
     (case find (\<lambda>i. item_id i = itemId) (st_items a) of
        None \<Rightarrow> db_items a
      | Some it \<Rightarrow>
          store_put item_id
            (it\<lparr>quantity := Math_max (Num (Finite 1)) (js_plus_int (quantity it) delta)\<rparr>)
            (db_items a))"
proof -
  let ?g = "\<lambda>item. item\<lparr>quantity := Math_max (Num (Finite 1)) (js_plus_int (quantity item) delta)\<rparr>"
  let ?f = "\<lambda>item. if item_id item = itemId then ?g item else item"
  have upd: "(\<lambda>item. if item_id item = itemId
                   then (let newQuantity = Math_max (Num (Finite 1)) (js_plus_int (quantity item) delta)
                         in item\<lparr>quantity := newQuantity\<rparr>)
                   else item) = ?f"
    by (rule ext) (simp add: Let_def)
  have fnd: "find (\<lambda>i. item_id i = itemId) (map ?f (st_items a)) =
             map_option ?f (find (\<lambda>i. item_id i = itemId) (st_items a))"
    by (rule find_map_same_id) simp
  show ?thesis
  proof (cases "find (\<lambda>i. item_id i = itemId) (st_items a)")
    case None
    then show ?thesis by (simp add: handleUpdateQuantity_def upd fnd)
  next
    case (Some it)
    then have "item_id it = itemId" by (auto simp: find_Some_iff)
    with Some show ?thesis by (simp add: handleUpdateQuantity_def upd fnd)
  qed
qed

text \<open>
  Claim C10. \<open>handleUpdateQuantity\<close> keeps the length of the item list; an item with another
  identifier is unchanged; an item with the identifier differs from the old one in its
  quantity alone, so its identifier, name, category, status, barcode, image and stores are
  kept. In the object store the records of the other identifiers are unchanged, and the
  stores and receipts are untouched.
\<close>

theorem quantity_update_frame:
  "length (st_items (handleUpdateQuantity itemId delta a)) = length (st_items a)
   \<and> (\<forall>i < length (st_items a).
        (let old = st_items a ! i; new = st_items (handleUpdateQuantity itemId delta a) ! i
         in (item_id old \<noteq> itemId \<longrightarrow> new = old)
            \<and> (item_id old = itemId \<longrightarrow>
                 new = old\<lparr>quantity := Math_max (Num (Finite 1)) (js_plus_int (quantity old) delta)\<rparr>)
            \<and> item_id new = item_id old \<and> name new = name old \<and> category new = category old
            \<and> status new = status old \<and> barcode new = barcode old \<and> imageUrl new = imageUrl old
            \<and> stores new = stores old))
   \<and> filter (\<lambda>r. item_id r \<noteq> itemId) (db_items (handleUpdateQuantity itemId delta a))
       = filter (\<lambda>r. item_id r \<noteq> itemId) (db_items a)
   \<and> db_stores (handleUpdateQuantity itemId delta a) = db_stores a
   \<and> db_receipts (handleUpdateQuantity itemId delta a) = db_receipts a
   \<and> st_stores (handleUpdateQuantity itemId delta a) = st_stores a
   \<and> st_receipts (handleUpdateQuantity itemId delta a) = st_receipts a"
proof (intro conjI)
  show "length (st_items (handleUpdateQuantity itemId delta a)) = length (st_items a)"
    by (simp add: update_quantity_st_items)
  show "\<forall>i < length (st_items a).
        (let old = st_items a ! i; new = st_items (handleUpdateQuantity itemId delta a) ! i
         in (item_id old \<noteq> itemId \<longrightarrow> new = old)
            \<and> (item_id old = itemId \<longrightarrow>
                 new = old\<lparr>quantity := Math_max (Num (Finite 1)) (js_plus_int (quantity old) delta)\<rparr>)
            \<and> item_id new = item_id old \<and> name new = name old \<and> category new = category old
            \<and> status new = status old \<and> barcode new = barcode old \<and> imageUrl new = imageUrl old
            \<and> stores new = stores old)"
    by (simp add: update_quantity_st_items Let_def)
  show "filter (\<lambda>r. item_id r \<noteq> itemId) (db_items (handleUpdateQuantity itemId delta a))
       = filter (\<lambda>r. item_id r \<noteq> itemId) (db_items a)"
  proof (cases "find (\<lambda>i. item_id i = itemId) (st_items a)")
    case None
    then show ?thesis by (simp add: update_quantity_db_items)
  next
    case (Some it)
    then have k: "item_id it = itemId" by (auto simp: find_Some_iff)
    let ?it = "it\<lparr>quantity := Math_max (Num (Finite 1)) (js_plus_int (quantity it) delta)\<rparr>"
    have "item_id ?it = itemId" using k by simp
    then show ?thesis
      using store_put_other_keys[of item_id ?it "db_items a"] Some
      by (simp add: update_quantity_db_items)
  qed
  show "db_stores (handleUpdateQuantity itemId delta a) = db_stores a"
    by (simp add: handleUpdateQuantity_def Let_def split: option.splits)
  show "db_receipts (handleUpdateQuantity itemId delta a) = db_receipts a"
    by (simp add: handleUpdateQuantity_def Let_def split: option.splits)
  show "st_stores (handleUpdateQuantity itemId delta a) = st_stores a"
    by (simp add: handleUpdateQuantity_def Let_def split: option.splits)
  show "st_receipts (handleUpdateQuantity itemId delta a) = st_receipts a"
    by (simp add: handleUpdateQuantity_def Let_def split: option.splits)
qed

theorem quantity_update_frame_witness:
  "st_items (handleUpdateQuantity ''i1'' (- 1) example_app)
     = [example_milk\<lparr>quantity := Num (Finite 1)\<rparr>, example_bread]
   \<and> db_items (handleUpdateQuantity ''i1'' (- 1) example_app)
     = [example_milk\<lparr>quantity := Num (Finite 1)\<rparr>, example_bread]"
  using quantity_update_frame[of "''i1''" "- 1" example_app]
  by (simp add: handleUpdateQuantity_def example_app_def example_milk_def example_bread_def
      store_put_def Math_max_def js_plus_int_def ToNumber_def Let_def)

subsection \<open>The quantity floor\<close>

lemma Math_max_1_int:
  "Math_max (Num (Finite 1)) (Num (Finite (of_int k))) = Num (Finite (of_int (max 1 k)))"
  by (simp add: Math_max_def ToNumber_def max_def Let_def)


















subsection \<open>The cheapest option\<close>













subsection \<open>Import and export\<close>




text \<open>
  Claim C1. On an import file with one item whose name has surrounding blanks, whose quantity
  is 0 and whose price points are a row without store name and a row with a price given as
  text, the import stores the item with the quantity set to 1 and everything else as it
  is in the file: the name is not trimmed, the row without a store name is kept, and the
  price stays a string. \<open>handleUpdateItem\<close> on the same record trims the name, drops the row
  and turns the price into the Number 2.5.
\<close>

theorem import_keeps_raw_item:
  "st_items (handleImportData example_raw_file example_app) = [example_raw_item\<lparr>quantity := Num (Finite 1)\<rparr>]
   \<and> db_items (handleImportData example_raw_file example_app) = [example_raw_item\<lparr>quantity := Num (Finite 1)\<rparr>]
   \<and> map name (st_items (handleImportData example_raw_file example_app)) = [''  Milk '']
   \<and> map stores (st_items (handleImportData example_raw_file example_app))
       = [Some [\<lparr>storeName = [], price = Str ''3''\<rparr>, \<lparr>storeName = ''Aldi'', price = Str ''2.50''\<rparr>]]
   \<and> map name (st_items (handleUpdateItem example_raw_item (example_app\<lparr>st_items := [example_raw_item]\<rparr>)))
       = [''Milk'']
   \<and> map stores (st_items (handleUpdateItem example_raw_item (example_app\<lparr>st_items := [example_raw_item]\<rparr>)))
       = [Some [\<lparr>storeName = ''Aldi'', price = Num (Finite (5 / 2))\<rparr>]]"
  by code_simp









subsection \<open>Sorting by total price\<close>



































end
